theory Spec2Isabelle
  imports Main
begin

section \<open>Python values used by server.py\<close>

text \<open>
  The f-strings of \<^verbatim>\<open>server.py\<close> format the port, a Python \<^verbatim>\<open>int\<close>
  (unbounded, so \<^typ>\<open>int\<close> here), in decimal, with a leading minus sign when
  it is negative.
\<close>

definition digit_char :: "nat \<Rightarrow> char" where
  "digit_char d = ''0123456789'' ! d"

fun str_nat :: "nat \<Rightarrow> string" where
  "str_nat n = (if n < 10 then [digit_char n] else str_nat (n div 10) @ [digit_char (n mod 10)])"

definition str_int :: "int \<Rightarrow> string" where
  "str_int i = (if i < 0 then CHR ''-'' # str_nat (nat (- i)) else str_nat (nat i))"

text \<open>
  The exceptions that can leave the two blocking library calls of the inner
  \<^verbatim>\<open>try\<close> block, by the classes the handlers of \<^verbatim>\<open>start_server\<close>
  tell apart: \<^verbatim>\<open>OSError\<close> with its \<^verbatim>\<open>errno\<close> attribute (which may be
  \<^verbatim>\<open>None\<close>) and its text \<^verbatim>\<open>str(e)\<close>; \<^verbatim>\<open>KeyboardInterrupt\<close> and
  \<^verbatim>\<open>SystemExit\<close>, which derive from \<^verbatim>\<open>BaseException\<close> only; and every
  other subclass of \<^verbatim>\<open>Exception\<close>, with its text.
\<close>

datatype exn =
    OSError "int option" string
  | KeyboardInterrupt
  | SystemExit int
  | OtherException string

text \<open>\<^verbatim>\<open>isinstance(e, Exception)\<close>, the test of the handler at line 27.\<close>

fun is_Exception :: "exn \<Rightarrow> bool" where
  "is_Exception (OSError en m) = True"
| "is_Exception KeyboardInterrupt = False"
| "is_Exception (SystemExit n) = False"
| "is_Exception (OtherException m) = True"

text \<open>\<^verbatim>\<open>str(e)\<close>, as the f-string of line 28 formats the exception.\<close>

fun str_exn :: "exn \<Rightarrow> string" where
  "str_exn (OSError en m) = m"
| "str_exn KeyboardInterrupt = []"
| "str_exn (SystemExit n) = str_int n"
| "str_exn (OtherException m) = m"

section \<open>The process state\<close>

text \<open>
  Dictionaries are objects on the heap, reached through references: the class
  attribute \<^verbatim>\<open>http.server.SimpleHTTPRequestHandler.extensions_map\<close> holds a
  reference to one dictionary, and \<^verbatim>\<open>dict.update\<close> changes that object in
  place.
\<close>

type_synonym ref = nat
type_synonym pydict = "string \<rightharpoonup> string"

text \<open>
  Where control is: before the call \<^verbatim>\<open>socketserver.TCPServer(("", port), handler)\<close>
  of line 15, inside \<^verbatim>\<open>httpd.serve_forever()\<close> of line 17, or out of
  \<^verbatim>\<open>start_server\<close> with an exception that no handler caught.
\<close>

datatype control = Binding | Serving | Raised exn

record proc =
  dicts :: "ref \<Rightarrow> pydict"
  SimpleHTTPRequestHandler_extensions_map :: ref
  stdout :: "string list"
  port :: int
  binds :: "int list"
  listener :: "int option"
  control :: control

text \<open>
  \<^const>\<open>stdout\<close> holds the arguments of the calls of \<^verbatim>\<open>print\<close>, one line each;
  \<^const>\<open>binds\<close> records the port of every call of the \<^verbatim>\<open>TCPServer\<close>
  constructor, in order; \<^const>\<open>listener\<close> is the port of the open listening
  socket, if there is one.
\<close>

text \<open>
  What the environment answers to the pending library call: it returns, or it
  raises. For the constructor of line 15, returning means that the socket is bound
  and listening.
\<close>

datatype event = Returns | Raises exn

section \<open>start\_server\<close>

definition py_print :: "string \<Rightarrow> proc \<Rightarrow> proc" where
  "py_print line s = s\<lparr>stdout := stdout s @ [line]\<rparr>"

text \<open>
  \<^verbatim>\<open>d.update({k: v, ...})\<close>: the pairs are stored in the order of the literal.
\<close>

definition dict_update :: "pydict \<Rightarrow> (string \<times> string) list \<Rightarrow> pydict" where
  "dict_update d kvs = foldl (\<lambda>m (k, v). m(k \<mapsto> v)) d kvs"

text \<open>
  Lines 8 to 11. \<^verbatim>\<open>handler\<close> is the class \<^verbatim>\<open>SimpleHTTPRequestHandler\<close>
  itself, not a subclass or a copy, so \<^verbatim>\<open>handler.extensions_map\<close> is the
  dictionary of the class attribute.
\<close>

definition configure_handler :: "proc \<Rightarrow> proc" where
  "configure_handler s =
     (let r = SimpleHTTPRequestHandler_extensions_map s
      in s\<lparr>dicts := (dicts s)(r := dict_update (dicts s r) [(''.js'', ''application/javascript'')])\<rparr>)"

text \<open>
  An exception that reaches the handler of lines 27 to 29. An instance of
  \<^verbatim>\<open>Exception\<close> is reported and \<^verbatim>\<open>sys.exit(1)\<close> raises \<^verbatim>\<open>SystemExit(1)\<close>
  out of the function; anything else is not caught and leaves the function as it is.
\<close>

definition outer_except :: "exn \<Rightarrow> proc \<Rightarrow> proc" where
  "outer_except e s =
     (if is_Exception e
      then (py_print (''Error starting server: '' @ str_exn e) s)\<lparr>control := Raised (SystemExit 1)\<rparr>
      else s\<lparr>control := Raised e\<rparr>)"

text \<open>
  An exception raised inside the \<^verbatim>\<open>try\<close> of line 14: the handlers of lines 18
  to 26. \<^verbatim>\<open>raise e\<close> of line 23 and the \<^verbatim>\<open>SystemExit(0)\<close> of \<^verbatim>\<open>sys.exit(0)\<close>
  (line 26) go on to the outer \<^verbatim>\<open>try\<close>, as does an exception that neither
  \<^verbatim>\<open>except\<close> clause matches. After the retry branch the \<^verbatim>\<open>while\<close> loop
  starts over.
\<close>

fun inner_except :: "exn \<Rightarrow> proc \<Rightarrow> proc" where
  "inner_except (OSError en m) s =
     (if en = Some 48
      then (let s1 = s\<lparr>port := port s + 1\<rparr>
            in (py_print (''Port '' @ str_int (port s1 - 1) @ '' is in use, trying port ''
                            @ str_int (port s1)) s1)\<lparr>control := Binding\<rparr>)
      else outer_except (OSError en m) s)"
| "inner_except KeyboardInterrupt s =
     outer_except (SystemExit 0) (py_print (CHR 0x0A # ''Shutting down server...'') s)"
| "inner_except e s = outer_except e s"

text \<open>
  One answer of the environment. At line 15 the constructor is called with the
  current port; when it returns, line 16 prints and line 17 starts serving. Leaving
  the \<^verbatim>\<open>with\<close> block, by a return of \<^verbatim>\<open>serve_forever\<close> or by an exception,
  closes the listener before any handler runs; a return is followed by the next
  iteration of the loop. Once an exception has left the function nothing happens.
\<close>

definition step :: "event \<Rightarrow> proc \<Rightarrow> proc" where
  "step ev s =
     (case control s of
        Binding \<Rightarrow>
          (let s1 = s\<lparr>binds := binds s @ [port s]\<rparr>
           in case ev of
                Returns \<Rightarrow>
                  (py_print (''Server started at http://localhost:'' @ str_int (port s1))
                     (s1\<lparr>listener := Some (port s1)\<rparr>))\<lparr>control := Serving\<rparr>
              | Raises e \<Rightarrow> inner_except e s1)
      | Serving \<Rightarrow>
          (let s1 = s\<lparr>listener := None\<rparr>
           in case ev of
                Returns \<Rightarrow> s1\<lparr>control := Binding\<rparr>
              | Raises e \<Rightarrow> inner_except e s1)
      | Raised e \<Rightarrow> s)"

primrec run :: "event list \<Rightarrow> proc \<Rightarrow> proc" where
  "run [] s = s"
| "run (ev # evs) s = run evs (step ev s)"

text \<open>
  \<^verbatim>\<open>start_server(port=8000)\<close>, called in the process state \<open>s\<close> and run against
  the answers \<open>evs\<close> of the environment. The result is the state after the last
  answer: still in the loop (\<^const>\<open>Binding\<close> or \<^const>\<open>Serving\<close>) when the answers
  are used up, or \<^const>\<open>Raised\<close>.
\<close>

definition start_server :: "int option \<Rightarrow> event list \<Rightarrow> proc \<Rightarrow> proc" where
  "start_server port_arg evs s =
     run evs (configure_handler
       (s\<lparr>port := (case port_arg of None \<Rightarrow> 8000 | Some p \<Rightarrow> p),
          binds := [], listener := None, control := Binding\<rparr>))"

text \<open>Lines 31 and 32: the module calls \<^verbatim>\<open>start_server()\<close> with no argument.\<close>

definition main :: "event list \<Rightarrow> proc \<Rightarrow> proc" where
  "main evs s = start_server None evs s"

text \<open>
  The exit status of the process once \<^verbatim>\<open>SystemExit(n)\<close> has left
  \<^verbatim>\<open>start_server\<close>: the interpreter exits with \<open>n\<close>.
\<close>

definition exit_status :: "proc \<Rightarrow> int option" where
  "exit_status s = (case control s of Raised (SystemExit n) \<Rightarrow> Some n | _ \<Rightarrow> None)"

section \<open>Request handling\<close>

text \<open>
  A handler instance has no \<^verbatim>\<open>extensions_map\<close> attribute of its own, so
  \<^verbatim>\<open>self.extensions_map\<close> is the dictionary of the class attribute.
\<close>

definition instance_extensions_map :: "proc \<Rightarrow> pydict" where
  "instance_extensions_map s = dicts s (SimpleHTTPRequestHandler_extensions_map s)"

text \<open>
  Modelled from the spec: the request handler of the static-file mechanism, which
  is not part of \<^verbatim>\<open>server.py\<close>. For a regular file it answers with a
  Content-Type derived from the file's extension through the extension map, and
  falls back to a generic binary type for an extension the map does not have.
\<close>

definition content_type :: "proc \<Rightarrow> string \<Rightarrow> string" where
  "content_type s ext =
     (case instance_extensions_map s ext of
        Some t \<Rightarrow> t
      | None \<Rightarrow> ''application/octet-stream'')"

section \<open>A concrete host\<close>

text \<open>
  A process whose extension map has the platform default \<^verbatim>\<open>text/javascript\<close>
  for \<^verbatim>\<open>.js\<close>, used to run the definitions on concrete inputs.
\<close>

definition example_host :: proc where
  "example_host =
     \<lparr>dicts = (\<lambda>r. Map.empty)
        (0 := [''.js'' \<mapsto> ''text/javascript'', ''.html'' \<mapsto> ''text/html'']),
      SimpleHTTPRequestHandler_extensions_map = 0, stdout = [], port = 0, binds = [],
      listener = None, control = Binding\<rparr>"

declare str_nat.simps [simp del]

section \<open>Frame lemmas\<close>

lemmas handler_defs = outer_except_def py_print_def Let_def

lemma inner_except_ref:
  "SimpleHTTPRequestHandler_extensions_map (inner_except e s) = SimpleHTTPRequestHandler_extensions_map s"
  by (cases e) (simp_all add: handler_defs)

lemma inner_except_dicts: "dicts (inner_except e s) = dicts s"
  by (cases e) (simp_all add: handler_defs)

lemma step_ref:
  "SimpleHTTPRequestHandler_extensions_map (step ev s) = SimpleHTTPRequestHandler_extensions_map s"
  by (simp add: step_def handler_defs inner_except_ref split: control.splits event.splits)

lemma step_dicts: "dicts (step ev s) = dicts s"
  by (simp add: step_def handler_defs inner_except_dicts split: control.splits event.splits)

lemma run_ref:
  "SimpleHTTPRequestHandler_extensions_map (run evs s) = SimpleHTTPRequestHandler_extensions_map s"
  by (induction evs arbitrary: s) (simp_all add: step_ref)

lemma run_dicts: "dicts (run evs s) = dicts s"
  by (induction evs arbitrary: s) (simp_all add: step_dicts)

lemma instance_map_run: "instance_extensions_map (run evs s) = instance_extensions_map s"
  by (simp add: instance_extensions_map_def run_ref run_dicts)

lemma instance_map_configure:
  "instance_extensions_map (configure_handler s) =
     (instance_extensions_map s)(''.js'' \<mapsto> ''application/javascript'')"
  by (simp add: instance_extensions_map_def configure_handler_def dict_update_def Let_def)

lemma instance_map_start_server:
  "instance_extensions_map (start_server a evs s) =
     (instance_extensions_map s)(''.js'' \<mapsto> ''application/javascript'')"
  by (simp add: start_server_def instance_map_run instance_map_configure)
     (simp add: instance_extensions_map_def)

section \<open>The loop\<close>

lemma run_append: "run (xs @ ys) s = run ys (run xs s)"
  by (induction xs arbitrary: s) simp_all

lemma inner_except_binds: "binds (inner_except e s) = binds s"
  by (cases e) (simp_all add: handler_defs)

lemma step_binds: "\<exists>xs. binds (step ev s) = binds s @ xs"
  by (simp add: step_def handler_defs inner_except_binds split: control.splits event.splits)

lemma run_binds: "\<exists>xs. binds (run evs s) = binds s @ xs"
proof (induction evs arbitrary: s)
  case Nil
  then show ?case by simp
next
  case (Cons ev evs)
  obtain xs where 1: "binds (step ev s) = binds s @ xs"
    using step_binds by blast
  obtain ys where 2: "binds (run evs (step ev s)) = binds (step ev s) @ ys"
    using Cons.IH by blast
  show ?case
    using 1 2 by simp
qed

lemma step_Binding_binds: "control s = Binding \<Longrightarrow> binds (step ev s) = binds s @ [port s]"
  by (simp add: step_def handler_defs inner_except_binds split: event.splits)

lemma step_Raised: "control s = Raised e \<Longrightarrow> step ev s = s"
  by (simp add: step_def)

lemma run_Raised: "control s = Raised e \<Longrightarrow> run evs s = s"
  by (induction evs) (simp_all add: step_Raised)

lemma step_busy:
  "control s = Binding \<Longrightarrow>
   step (Raises (OSError (Some 48) m)) s =
     s\<lparr>binds := binds s @ [port s], port := port s + 1,
       stdout := stdout s @ [''Port '' @ str_int (port s) @ '' is in use, trying port ''
                               @ str_int (port s + 1)]\<rparr>"
  by (simp add: step_def handler_defs)

lemma step_bound:
  "control s = Binding \<Longrightarrow>
   step Returns s =
     s\<lparr>binds := binds s @ [port s], listener := Some (port s),
       stdout := stdout s @ [''Server started at http://localhost:'' @ str_int (port s)],
       control := Serving\<rparr>"
  by (simp add: step_def handler_defs)

lemma run_busy:
  "control s = Binding \<Longrightarrow>
   run (map (\<lambda>m. Raises (OSError (Some 48) m)) ms) s =
     s\<lparr>binds := binds s @ map (\<lambda>i. port s + int i) [0..<length ms],
       port := port s + int (length ms),
       stdout := stdout s @ map (\<lambda>i. ''Port '' @ str_int (port s + int i) @ '' is in use, trying port ''
                                        @ str_int (port s + int i + 1)) [0..<length ms]\<rparr>"
proof (induction ms rule: rev_induct)
  case Nil
  then show ?case by simp
next
  case (snoc m ms)
  let ?s = "run (map (\<lambda>m. Raises (OSError (Some 48) m)) ms) s"
  have eq: "?s = s\<lparr>binds := binds s @ map (\<lambda>i. port s + int i) [0..<length ms],
       port := port s + int (length ms),
       stdout := stdout s @ map (\<lambda>i. ''Port '' @ str_int (port s + int i) @ '' is in use, trying port ''
                                        @ str_int (port s + int i + 1)) [0..<length ms]\<rparr>"
    using snoc by simp
  have c: "control ?s = Binding"
    unfolding eq using snoc.prems by simp
  have "run (map (\<lambda>m. Raises (OSError (Some 48) m)) (ms @ [m])) s = step (Raises (OSError (Some 48) m)) ?s"
    by (simp add: run_append)
  also have "\<dots> = ?s\<lparr>binds := binds ?s @ [port ?s], port := port ?s + 1,
       stdout := stdout ?s @ [''Port '' @ str_int (port ?s) @ '' is in use, trying port ''
                               @ str_int (port ?s + 1)]\<rparr>"
    by (rule step_busy [OF c])
  finally show ?case
    unfolding eq by (simp add: add.assoc)
qed









section \<open>Running the concrete host\<close>

lemma str_int_8000: "str_int 8000 = ''8000''" "str_int 8001 = ''8001''" "str_int 8002 = ''8002''"
  by (simp_all add: str_int_def str_nat.simps digit_char_def)

lemma main_init:
  "control (main [] example_host) = Binding" "port (main [] example_host) = 8000"
  "stdout (main [] example_host) = []" "binds (main [] example_host) = []"
  "listener (main [] example_host) = None"
  by (simp_all add: main_def start_server_def configure_handler_def Let_def example_host_def)

lemma serving_init:
  "control (main [Returns] example_host) = Serving" "port (main [Returns] example_host) = 8000"
  "stdout (main [Returns] example_host) = [''Server started at http://localhost:8000'']"
  "listener (main [Returns] example_host) = Some 8000"
  by (simp_all add: main_def start_server_def configure_handler_def step_def py_print_def Let_def
        example_host_def str_int_8000)

section \<open>The claims\<close>

text \<open>
  C3. Whatever the extension map of the host held before the call, in every state
  of \<^const>\<open>start_server\<close> (before the first bind and after any answers of the
  environment, so in every state in which a request is served) a handler instance
  finds \<^verbatim>\<open>'.js'\<close> mapped to \<^verbatim>\<open>'application/javascript'\<close>, and the
  Content-Type derived for the extension \<^verbatim>\<open>.js\<close> is
  \<^verbatim>\<open>application/javascript\<close>.
\<close>

theorem js_content_type_configured:
  "instance_extensions_map (start_server a evs s) ''.js'' = Some ''application/javascript''
   \<and> content_type (start_server a evs s) ''.js'' = ''application/javascript''"
  by (simp add: content_type_def instance_map_start_server)

text \<open>
  C10. The configuration of lines 8 to 11 updates in place the one dictionary that
  the class attribute refers to, which is the dictionary every handler instance
  reads: the reference is the same before and after, that dictionary differs from
  what it was only at \<^verbatim>\<open>'.js'\<close>, every other extension has the mapping it had,
  and no other dictionary of the process changes. This holds for the whole call of
  \<^const>\<open>start_server\<close>, whatever the environment answers.
\<close>

theorem extensions_map_frame:
  "SimpleHTTPRequestHandler_extensions_map (start_server a evs s) = SimpleHTTPRequestHandler_extensions_map s
   \<and> instance_extensions_map (start_server a evs s) =
       (instance_extensions_map s)(''.js'' \<mapsto> ''application/javascript'')
   \<and> (\<forall>ext. ext \<noteq> ''.js'' \<longrightarrow>
         instance_extensions_map (start_server a evs s) ext = instance_extensions_map s ext)
   \<and> (\<forall>r. r \<noteq> SimpleHTTPRequestHandler_extensions_map s \<longrightarrow>
         dicts (start_server a evs s) r = dicts s r)"
  by (simp add: instance_map_start_server)
     (simp add: start_server_def run_ref run_dicts configure_handler_def Let_def)

theorem extensions_map_frame_witness:
  "instance_extensions_map (start_server None [] example_host) ''.html'' = Some ''text/html''
   \<and> instance_extensions_map example_host ''.js'' = Some ''text/javascript''
   \<and> instance_extensions_map (start_server None [] example_host) ''.js'' = Some ''application/javascript''
   \<and> dicts (start_server None [] example_host) 1 = Map.empty"
proof -
  have h1: "instance_extensions_map example_host ''.html'' = Some ''text/html''"
    by (simp add: example_host_def instance_extensions_map_def)
  have h2: "instance_extensions_map example_host ''.js'' = Some ''text/javascript''"
    by (simp add: example_host_def instance_extensions_map_def)
  have h3: "dicts example_host 1 = Map.empty"
    by (simp add: example_host_def)
  have h4: "(1::nat) \<noteq> SimpleHTTPRequestHandler_extensions_map example_host"
    by (simp add: example_host_def)
  have h5: "''.html'' \<noteq> ''.js''"
    by simp
  note t = extensions_map_frame [of None "[]" example_host]
  have upd: "instance_extensions_map (start_server None [] example_host) =
       (instance_extensions_map example_host)(''.js'' \<mapsto> ''application/javascript'')"
    using t by (rule conjunct1 [OF conjunct2])
  have frame: "\<forall>ext. ext \<noteq> ''.js'' \<longrightarrow>
      instance_extensions_map (start_server None [] example_host) ext =
      instance_extensions_map example_host ext"
    using t by (rule conjunct1 [OF conjunct2 [OF conjunct2]])
  have others: "\<forall>r. r \<noteq> SimpleHTTPRequestHandler_extensions_map example_host \<longrightarrow>
      dicts (start_server None [] example_host) r = dicts example_host r"
    using t by (rule conjunct2 [OF conjunct2 [OF conjunct2]])
  have a: "instance_extensions_map (start_server None [] example_host) ''.html'' = Some ''text/html''"
    using frame [rule_format, OF h5] h1 by (rule trans)
  have b: "instance_extensions_map (start_server None [] example_host) ''.js'' =
      Some ''application/javascript''"
    unfolding upd by (rule fun_upd_same)
  have c: "dicts (start_server None [] example_host) 1 = Map.empty"
    using others [rule_format, OF h4] h3 by (rule trans)
  from a h2 b c show ?thesis
    by (intro conjI)
qed

text \<open>
  C7. When the constructor of line 15 returns, so the bind on the current port has
  succeeded, the listener is open on exactly that port, the one line printed is
  \<^verbatim>\<open>Server started at http://localhost:<port>\<close> with that port, and control is
  in \<^verbatim>\<open>serve_forever\<close>; nothing else changes.
\<close>

theorem bind_success_reports_port:
  "control s = Binding \<Longrightarrow>
   step Returns s =
     s\<lparr>binds := binds s @ [port s], listener := Some (port s),
       stdout := stdout s @ [''Server started at http://localhost:'' @ str_int (port s)],
       control := Serving\<rparr>"
  by (simp add: step_def handler_defs)

theorem bind_success_reports_port_witness:
  "control (main [] example_host) = Binding
   \<and> stdout (step Returns (main [] example_host)) = [''Server started at http://localhost:8000'']
   \<and> listener (step Returns (main [] example_host)) = Some 8000
   \<and> control (step Returns (main [] example_host)) = Serving"
proof -
  have h: "control (main [] example_host) = Binding" by (rule main_init)
  show ?thesis
    unfolding bind_success_reports_port [OF h] by (simp add: main_init str_int_8000)
qed

text \<open>
  C4. A \<^verbatim>\<open>KeyboardInterrupt\<close> that arrives while the server is serving closes the
  listener, prints the shutdown line and nothing else, and leaves the function with
  \<^verbatim>\<open>SystemExit(0)\<close>: the exit status is 0, and the line of the fatal path is not
  printed.
\<close>

theorem interrupt_exits_zero:
  "control s = Serving \<Longrightarrow>
   step (Raises KeyboardInterrupt) s =
     s\<lparr>listener := None, stdout := stdout s @ [CHR 0x0A # ''Shutting down server...''],
       control := Raised (SystemExit 0)\<rparr>
   \<and> exit_status (step (Raises KeyboardInterrupt) s) = Some 0"
  by (simp add: step_def handler_defs exit_status_def)

theorem interrupt_exits_zero_witness:
  "control (main [Returns] example_host) = Serving
   \<and> stdout (step (Raises KeyboardInterrupt) (main [Returns] example_host)) =
       [''Server started at http://localhost:8000'', CHR 0x0A # ''Shutting down server...'']
   \<and> listener (step (Raises KeyboardInterrupt) (main [Returns] example_host)) = None
   \<and> exit_status (step (Raises KeyboardInterrupt) (main [Returns] example_host)) = Some 0"
proof -
  have h: "control (main [Returns] example_host) = Serving" by (rule serving_init)
  note t = interrupt_exits_zero [OF h]
  have "exit_status (step (Raises KeyboardInterrupt) (main [Returns] example_host)) = Some 0"
    by (rule t [THEN conjunct2])
  moreover have "stdout (step (Raises KeyboardInterrupt) (main [Returns] example_host)) =
       [''Server started at http://localhost:8000'', CHR 0x0A # ''Shutting down server...'']"
    "listener (step (Raises KeyboardInterrupt) (main [Returns] example_host)) = None"
    unfolding t [THEN conjunct1] by (simp_all add: serving_init)
  ultimately show ?thesis
    using h by (intro conjI)
qed

text \<open>
  C2. An \<^verbatim>\<open>OSError\<close> raised by the constructor of line 15 is classified by the
  test \<^verbatim>\<open>e.errno == 48\<close> alone. With errno 48 the port goes up by one, the retry
  line is printed and the loop goes on. With any other errno (also none at all) the
  error is raised again, \<^verbatim>\<open>Error starting server: <message>\<close> is printed, and
  the function is left with \<^verbatim>\<open>SystemExit(1)\<close>; the port is not changed and no
  further bind is attempted.
\<close>

theorem errno_48_classification:
  "control s = Binding \<Longrightarrow>
   step (Raises (OSError en m)) s =
     (if en = Some 48
      then s\<lparr>binds := binds s @ [port s], port := port s + 1,
             stdout := stdout s @ [''Port '' @ str_int (port s) @ '' is in use, trying port ''
                                     @ str_int (port s + 1)]\<rparr>
      else s\<lparr>binds := binds s @ [port s],
             stdout := stdout s @ [''Error starting server: '' @ m],
             control := Raised (SystemExit 1)\<rparr>)"
  by (simp add: step_def handler_defs)

theorem errno_48_classification_witness:
  "control (main [] example_host) = Binding
   \<and> stdout (step (Raises (OSError (Some 98) ''[Errno 98] Address already in use'')) (main [] example_host)) =
       [''Error starting server: [Errno 98] Address already in use'']
   \<and> control (step (Raises (OSError (Some 98) ''[Errno 98] Address already in use'')) (main [] example_host)) =
       Raised (SystemExit 1)
   \<and> stdout (step (Raises (OSError (Some 48) ''[Errno 48] Address already in use'')) (main [] example_host)) =
       [''Port 8000 is in use, trying port 8001'']
   \<and> port (step (Raises (OSError (Some 48) ''[Errno 48] Address already in use'')) (main [] example_host)) = 8001
   \<and> control (step (Raises (OSError (Some 48) ''[Errno 48] Address already in use'')) (main [] example_host)) =
       Binding"
proof -
  have h: "control (main [] example_host) = Binding" by (rule main_init)
  show ?thesis
    unfolding errno_48_classification [OF h] by (simp add: main_init str_int_8000)
qed

text \<open>
  C5. Every exception of class \<^verbatim>\<open>Exception\<close> raised by the constructor of line
  15, other than an \<^verbatim>\<open>OSError\<close> with errno 48 (the test by which the code
  recognises an address in use), is fatal: \<^verbatim>\<open>Error starting server: <message>\<close>
  is printed and the process exits with status 1.
\<close>

theorem other_startup_failure_fatal:
  "control s = Binding \<Longrightarrow> is_Exception e \<Longrightarrow> (\<forall>m. e \<noteq> OSError (Some 48) m) \<Longrightarrow>
   step (Raises e) s =
     s\<lparr>binds := binds s @ [port s],
       stdout := stdout s @ [''Error starting server: '' @ str_exn e],
       control := Raised (SystemExit 1)\<rparr>
   \<and> exit_status (step (Raises e) s) = Some 1"
  by (cases e) (simp_all add: step_def handler_defs exit_status_def)

theorem other_startup_failure_fatal_witness:
  "control (main [] example_host) = Binding
   \<and> is_Exception (OSError (Some 13) ''[Errno 13] Permission denied'')
   \<and> stdout (step (Raises (OSError (Some 13) ''[Errno 13] Permission denied'')) (main [] example_host)) =
       [''Error starting server: [Errno 13] Permission denied'']
   \<and> exit_status (step (Raises (OSError (Some 13) ''[Errno 13] Permission denied'')) (main [] example_host)) =
       Some 1"
proof -
  have h: "control (main [] example_host) = Binding" by (rule main_init)
  have e: "is_Exception (OSError (Some 13) ''[Errno 13] Permission denied'')" by simp
  have n: "\<forall>m. OSError (Some 13) ''[Errno 13] Permission denied'' \<noteq> OSError (Some 48) m" by simp
  note t = other_startup_failure_fatal [OF h e n]
  have "exit_status (step (Raises (OSError (Some 13) ''[Errno 13] Permission denied'')) (main [] example_host)) =
      Some 1"
    by (rule t [THEN conjunct2])
  moreover have "stdout (step (Raises (OSError (Some 13) ''[Errno 13] Permission denied'')) (main [] example_host)) =
       [''Error starting server: [Errno 13] Permission denied'']"
    unfolding t [THEN conjunct1] by (simp add: main_init)
  ultimately show ?thesis
    using h e by (intro conjI)
qed

text \<open>
  C9. The module calls \<^verbatim>\<open>start_server()\<close> with no argument, so the port is the
  default 8000 when the loop is entered, no bind has been attempted before, and
  whatever the environment answers, the first call of the \<^verbatim>\<open>TCPServer\<close>
  constructor is on port 8000.
\<close>

theorem default_port_first_bind:
  "port (main [] s) = 8000 \<and> control (main [] s) = Binding \<and> binds (main [] s) = []
   \<and> take 1 (binds (main (ev # evs) s)) = [8000]"
proof -
  let ?s0 = "configure_handler (s\<lparr>port := 8000, binds := [], listener := None, control := Binding\<rparr>)"
  have c0: "control ?s0 = Binding" "port ?s0 = 8000" "binds ?s0 = []"
    by (simp_all add: configure_handler_def Let_def)
  have m0: "main [] s = ?s0"
    by (simp add: main_def start_server_def)
  have "binds (step ev ?s0) = [8000]"
    using step_Binding_binds [OF c0(1), of ev] c0 by simp
  moreover obtain xs where "binds (run evs (step ev ?s0)) = binds (step ev ?s0) @ xs"
    using run_binds by blast
  ultimately have "take 1 (binds (run evs (step ev ?s0))) = [8000]"
    by simp
  then have "take 1 (binds (main (ev # evs) s)) = [8000]"
    by (simp add: main_def start_server_def)
  then show ?thesis
    using c0 m0 by simp
qed




text \<open>
  The retry sequence under errno 48, which is the behaviour that C1 and C6
  describe. Started on port \<open>P\<close>, with the next \<open>k\<close> binds answered by an
  \<^verbatim>\<open>OSError\<close> with errno 48 and the bind after them succeeding,
  \<^const>\<open>start_server\<close> tries exactly the ports \<open>P, P+1, ..., P+k\<close> in this
  order, prints one retry line for each of the ports \<open>P, ..., P+k-1\<close>, naming
  that port and the next one, then the start line for \<open>P+k\<close>, and is serving on
  \<open>P+k\<close>.
\<close>

theorem retry_sequence:
  "start_server (Some P) (map (\<lambda>m. Raises (OSError (Some 48) m)) ms @ [Returns]) s =
     (configure_handler s)\<lparr>port := P + int (length ms),
        binds := map (\<lambda>i. P + int i) [0..<Suc (length ms)],
        listener := Some (P + int (length ms)),
        stdout := stdout s @
          map (\<lambda>i. ''Port '' @ str_int (P + int i) @ '' is in use, trying port '' @ str_int (P + int i + 1))
            [0..<length ms]
          @ [''Server started at http://localhost:'' @ str_int (P + int (length ms))],
        control := Serving\<rparr>"
proof -
  let ?s0 = "configure_handler (s\<lparr>port := P, binds := [], listener := None, control := Binding\<rparr>)"
  have c0: "control ?s0 = Binding" "port ?s0 = P" "binds ?s0 = []" "stdout ?s0 = stdout s"
    by (simp_all add: configure_handler_def Let_def)
  let ?s1 = "run (map (\<lambda>m. Raises (OSError (Some 48) m)) ms) ?s0"
  note eq = run_busy [OF c0(1), of ms]
  have c1: "control ?s1 = Binding"
    unfolding eq using c0 by simp
  have "start_server (Some P) (map (\<lambda>m. Raises (OSError (Some 48) m)) ms @ [Returns]) s = step Returns ?s1"
    by (simp add: start_server_def run_append)
  also have "\<dots> = ?s1\<lparr>binds := binds ?s1 @ [port ?s1], listener := Some (port ?s1),
       stdout := stdout ?s1 @ [''Server started at http://localhost:'' @ str_int (port ?s1)],
       control := Serving\<rparr>"
    by (rule step_bound [OF c1])
  finally show ?thesis
    unfolding eq by (simp add: c0 configure_handler_def Let_def)
qed

theorem retry_sequence_witness:
  "stdout (start_server (Some 8000)
      (map (\<lambda>m. Raises (OSError (Some 48) m)) [''a'', ''b''] @ [Returns]) example_host) =
     [''Port 8000 is in use, trying port 8001'', ''Port 8001 is in use, trying port 8002'',
      ''Server started at http://localhost:8002'']
   \<and> binds (start_server (Some 8000)
      (map (\<lambda>m. Raises (OSError (Some 48) m)) [''a'', ''b''] @ [Returns]) example_host) =
     [8000, 8001, 8002]
   \<and> listener (start_server (Some 8000)
      (map (\<lambda>m. Raises (OSError (Some 48) m)) [''a'', ''b''] @ [Returns]) example_host) = Some 8002
   \<and> control (start_server (Some 8000)
      (map (\<lambda>m. Raises (OSError (Some 48) m)) [''a'', ''b''] @ [Returns]) example_host) = Serving"
proof -
  have s: "stdout example_host = []"
    by (simp add: example_host_def)
  show ?thesis
    unfolding retry_sequence [of 8000 "[''a'', ''b'']" example_host]
    by (simp add: s str_int_8000)
qed

text \<open>
  C1, evaluated where the claim fails. On Linux a bind to a port in use raises
  \<^verbatim>\<open>OSError(98, 'Address already in use')\<close>. The test \<^verbatim>\<open>e.errno == 48\<close> is
  false for it, so the error is raised again: one bind has been attempted, no retry
  line has been printed, the fatal line has, and the function is left with
  \<^verbatim>\<open>SystemExit(1)\<close>.
\<close>

theorem errno_98_not_retried:
  "start_server (Some P) [Raises (OSError (Some 98) ''[Errno 98] Address already in use'')] s =
     (configure_handler s)\<lparr>port := P, binds := [P], listener := None,
        stdout := stdout s @ [''Error starting server: [Errno 98] Address already in use''],
        control := Raised (SystemExit 1)\<rparr>"
  by (simp add: start_server_def step_def configure_handler_def handler_defs)

text \<open>
  C6, evaluated where the claim fails. The program is run with no argument while
  port 8000 is busy on Linux, so the first bind raises
  \<^verbatim>\<open>OSError(98, 'Address already in use')\<close>. Whatever the environment would
  answer afterwards, port 8000 is the only port ever tried: no retry line is
  printed, port 8001 is not tried, and the process exits with status 1.
\<close>

theorem busy_start_port_errno_98_single_bind:
  "main (Raises (OSError (Some 98) ''[Errno 98] Address already in use'') # evs) s =
     (configure_handler s)\<lparr>port := 8000, binds := [8000], listener := None,
        stdout := stdout s @ [''Error starting server: [Errno 98] Address already in use''],
        control := Raised (SystemExit 1)\<rparr>"
proof -
  let ?s0 = "configure_handler (s\<lparr>port := 8000, binds := [], listener := None, control := Binding\<rparr>)"
  let ?s1 = "step (Raises (OSError (Some 98) ''[Errno 98] Address already in use'')) ?s0"
  have eq: "?s1 = (configure_handler s)\<lparr>port := 8000, binds := [8000], listener := None,
        stdout := stdout s @ [''Error starting server: [Errno 98] Address already in use''],
        control := Raised (SystemExit 1)\<rparr>"
    by (simp add: step_def configure_handler_def handler_defs)
  have "control ?s1 = Raised (SystemExit 1)"
    unfolding eq by simp
  then have "run evs ?s1 = ?s1"
    by (rule run_Raised)
  moreover have "main (Raises (OSError (Some 98) ''[Errno 98] Address already in use'') # evs) s
      = run evs ?s1"
    by (simp add: main_def start_server_def)
  ultimately show ?thesis
    using eq by simp
qed

end
